theory Spec2Isabelle
  imports Complex_Main "HOL-Library.AList"
begin

section \<open>The D-Wave server stub: Registry and tool dispatcher\<close>

text \<open>
  A shallow embedding of \<^verbatim>\<open>src/mcp_server_dwave/server.py\<close>: the class
  \<^verbatim>\<open>DWaveServer\<close> (the Registry) and the dispatcher \<^verbatim>\<open>call_tool\<close>.

  Conventions of the model.
  \<^item> A method that mutates \<^verbatim>\<open>self\<close> takes the server state and returns the outcome
    together with the state it leaves behind, also when it raises: an exception does not
    undo an assignment made before it.
  \<^item> \<^verbatim>\<open>str(uuid.uuid4())\<close> is an external, random source. The token it returns at a call
    is an explicit argument (\<open>uuid\<close>) of the operation that draws it.
  \<^item> Python floats are idealised as reals; rounding is outside the model.
  \<^item> Strings are lists of 8-bit characters read as the code points 0..255.
  \<^item> Dictionary keys range over integers, strings and tuples of keys; coefficient values
    over integers, floats and \<^verbatim>\<open>None\<close> (a value that \<^verbatim>\<open>float()\<close> rejects). A dictionary
    whose iteration order matters is an association list in insertion order.
\<close>

subsection \<open>Exceptions\<close>

text \<open>
  The message of an exception raised by the source is kept as text; the message of an
  exception raised by the interpreter itself (\<^verbatim>\<open>int()\<close>, \<^verbatim>\<open>float()\<close>, tuple unpacking,
  a missing attribute) is not modelled.
\<close>

datatype message = Msg string | InterpreterMsg

datatype error =
    ValueError message
  | TypeError message
  | OverflowError message
  | AttributeError message

subsection \<open>Python values\<close>

datatype pykey = KInt int | KStr string | KTuple "pykey list"

datatype pyval = PyInt int | PyFloat real | PyNone

type_synonym pydict = "(pykey \<times> pyval) list"

text \<open>
  \<^verbatim>\<open>float(v)\<close>. An integer converts when it rounds to a finite double, that is when its
  magnitude is below \<open>2 ^ 1024 - 2 ^ 970\<close>, half way between the largest double and
  \<open>2 ^ 1024\<close>; otherwise the conversion raises \<^verbatim>\<open>OverflowError\<close>.
\<close>

definition py_float :: "pyval \<Rightarrow> error + real" where
  "py_float v =
     (case v of
        PyInt n \<Rightarrow>
          if \<bar>n\<bar> < 2 ^ 1024 - 2 ^ 970 then Inr (of_int n)
          else Inl (OverflowError InterpreterMsg)
      | PyFloat x \<Rightarrow> Inr x
      | PyNone \<Rightarrow> Inl (TypeError InterpreterMsg))"

subsection \<open>String operations of the Python library\<close>

text \<open>
  The characters \<^verbatim>\<open>int()\<close> skips around a literal, among the code points below 256: the
  ASCII white space and the two non-ASCII spaces. The separators 28 to 31 are not skipped.
\<close>

definition is_space :: "char \<Rightarrow> bool" where
  "is_space c = ((of_char c :: nat) \<in> set [9, 10, 11, 12, 13, 32, 133, 160])"

definition is_digit :: "char \<Rightarrow> bool" where
  "is_digit c = (48 \<le> (of_char c :: nat) \<and> (of_char c :: nat) \<le> 57)"

definition digit_val :: "char \<Rightarrow> nat" where
  "digit_val c = of_char c - 48"

text \<open>\<^verbatim>\<open>s.strip(chars)\<close>: drops the characters satisfying \<open>P\<close> from both ends.\<close>

definition py_strip :: "(char \<Rightarrow> bool) \<Rightarrow> string \<Rightarrow> string" where
  "py_strip P s = rev (dropWhile P (rev (dropWhile P s)))"

text \<open>\<^verbatim>\<open>s.split(sep)\<close> for a separator of one character.\<close>

fun py_split :: "char \<Rightarrow> string \<Rightarrow> string list" where
  "py_split sep [] = [[]]"
| "py_split sep (c # cs) =
     (if c = sep then [] # py_split sep cs
      else (case py_split sep cs of
              [] \<Rightarrow> [[c]]
            | p # ps \<Rightarrow> (c # p) # ps))"

text \<open>
  The digits of a decimal literal after its first digit: single underscores are allowed
  between digits. \<open>acc\<close> is the value read so far.
\<close>

fun int_digits :: "nat \<Rightarrow> string \<Rightarrow> nat option" where
  "int_digits acc [] = Some acc"
| "int_digits acc [c] = (if is_digit c then Some (10 * acc + digit_val c) else None)"
| "int_digits acc (c # d # ds) =
     (if is_digit c then int_digits (10 * acc + digit_val c) (d # ds)
      else if c = CHR ''_'' \<and> is_digit d then int_digits (10 * acc + digit_val d) ds
      else None)"

definition int_literal :: "string \<Rightarrow> nat option" where
  "int_literal s =
     (case s of
        [] \<Rightarrow> None
      | c # cs \<Rightarrow> if is_digit c then int_digits (digit_val c) cs else None)"

text \<open>
  The interpreter's limit on the number of digits of a decimal literal that \<^verbatim>\<open>int()\<close>
  converts (\<^verbatim>\<open>sys.int_max_str_digits\<close>), at its default.
\<close>

definition int_max_str_digits :: nat where
  "int_max_str_digits = 4300"

text \<open>
  A literal within the limit; leading zeros count, underscores do not. A literal that is
  malformed or too long is rejected.
\<close>

definition checked_literal :: "string \<Rightarrow> nat option" where
  "checked_literal s =
     (if length (filter is_digit s) > int_max_str_digits then None else int_literal s)"

text \<open>
  \<^verbatim>\<open>int(s)\<close> for a string, base 10: surrounding white space, an optional sign, a literal.
  Every rejection is a \<^verbatim>\<open>ValueError\<close>.
\<close>

definition py_int :: "string \<Rightarrow> error + int" where
  "py_int s =
     (case py_strip is_space s of
        [] \<Rightarrow> Inl (ValueError InterpreterMsg)
      | c # cs \<Rightarrow>
          if c = CHR ''-'' then
            (case checked_literal cs of
               None \<Rightarrow> Inl (ValueError InterpreterMsg)
             | Some n \<Rightarrow> Inr (- int n))
          else if c = CHR ''+'' then
            (case checked_literal cs of
               None \<Rightarrow> Inl (ValueError InterpreterMsg)
             | Some n \<Rightarrow> Inr (int n))
          else
            (case checked_literal (c # cs) of
               None \<Rightarrow> Inl (ValueError InterpreterMsg)
             | Some n \<Rightarrow> Inr (int n)))"

text \<open>\<^verbatim>\<open>str(i)\<close> for an integer.\<close>

function digits_of :: "nat \<Rightarrow> string" where
  "digits_of n =
     (if n < 10 then [char_of (48 + n)]
      else digits_of (n div 10) @ [char_of (48 + n mod 10)])"
  by pat_completeness auto
termination
  by (relation "measure (\<lambda>n. n)") auto

declare digits_of.simps [simp del]

definition py_str :: "int \<Rightarrow> string" where
  "py_str i = (if i < 0 then CHR ''-'' # digits_of (nat (- i)) else digits_of (nat i))"

subsection \<open>The data model\<close>

record server_config =
  use_simulator :: bool
  simulator_type :: string

text \<open>\<^verbatim>\<open>ServerConfig.__init__\<close>\<close>

definition ServerConfig :: "bool \<Rightarrow> server_config" where
  "ServerConfig use_sim = \<lparr>use_simulator = use_sim, simulator_type = ''dwave''\<rparr>"

type_synonym coeffs = "(pykey \<times> real) list"

text \<open>
  A stored problem: the dictionary with the entries \<^verbatim>\<open>problem_id\<close>, \<^verbatim>\<open>type\<close>,
  \<^verbatim>\<open>Q\<close> (or \<^verbatim>\<open>h\<close> and \<^verbatim>\<open>J\<close>) and \<^verbatim>\<open>description\<close>.
\<close>

datatype problem =
    Qubo string coeffs string
  | Ising string coeffs coeffs string

fun problem_type :: "problem \<Rightarrow> string" where
  "problem_type (Qubo pid Q d) = ''qubo''"
| "problem_type (Ising pid h J d) = ''ising''"

record result =
  result_id :: string
  problem_id :: string
  energy :: real
  solution :: "(string \<times> int) list"
  qpu_access_time :: real
  execution_time :: real
  total_annealing_time :: real
  status :: string

record server =
  config :: server_config
  problems :: "string \<rightharpoonup> problem"
  results :: "string \<rightharpoonup> result"

text \<open>\<^verbatim>\<open>DWaveServer.__init__\<close>; \<^verbatim>\<open>main\<close> only forwards to it.\<close>

definition DWaveServer :: "server_config option \<Rightarrow> server" where
  "DWaveServer cfg =
     \<lparr>config = (case cfg of None \<Rightarrow> ServerConfig True | Some c \<Rightarrow> c),
      problems = Map.empty,
      results = Map.empty\<rparr>"

subsection \<open>Simulator configuration\<close>

record simulator_status =
  st_use_simulator :: bool
  st_simulator_type :: string
  using_simulator :: bool
  quantum_hardware_available :: bool

definition get_simulator_status :: "server \<Rightarrow> simulator_status" where
  "get_simulator_status s =
     \<lparr>st_use_simulator = use_simulator (config s),
      st_simulator_type = simulator_type (config s),
      using_simulator = use_simulator (config s),
      quantum_hardware_available = False\<rparr>"

record config_update =
  cu_use_simulator :: bool
  cu_simulator_type :: string
  updated :: bool

definition set_simulator_config ::
  "bool \<Rightarrow> string \<Rightarrow> server \<Rightarrow> (error + config_update) \<times> server" where
  "set_simulator_config use_sim sim_type s =
     (if sim_type \<notin> set [''dwave'', ''neal''] then
        (Inl (ValueError (Msg (''Invalid simulator_type: '' @ sim_type @
                               ''. Must be '' @ [CHR 0x27] @ ''dwave'' @ [CHR 0x27] @
                               '' or '' @ [CHR 0x27] @ ''neal'' @ [CHR 0x27] @ ''.''))), s)
      else
        let s' = s\<lparr>config := (config s)\<lparr>use_simulator := use_sim, simulator_type := sim_type\<rparr>\<rparr>
        in (Inr \<lparr>cu_use_simulator = use_simulator (config s'),
                 cu_simulator_type = simulator_type (config s'),
                 updated = True\<rparr>, s'))"

subsection \<open>Problem creation\<close>

text \<open>
  The textual branch of the loop over \<^verbatim>\<open>Q.items()\<close>:
  \<^verbatim>\<open>stripped = k.strip("()"); i, j = map(int, stripped.split(","))\<close>.
  Every failure here, of \<^verbatim>\<open>int\<close> or of the unpacking into two names, is a
  \<^verbatim>\<open>ValueError\<close>.
\<close>

definition pair_of_text :: "string \<Rightarrow> error + pykey" where
  "pair_of_text k =
     (case py_split CHR '','' (py_strip (\<lambda>c. c \<in> set ''()'') k) of
        [a, b] \<Rightarrow>
          (case py_int a of
             Inl e \<Rightarrow> Inl e
           | Inr i \<Rightarrow>
               (case py_int b of
                  Inl e \<Rightarrow> Inl e
                | Inr j \<Rightarrow> Inr (KTuple [KInt i, KInt j])))
      | _ \<Rightarrow> Inl (ValueError InterpreterMsg))"

text \<open>The key stored for a key \<open>k\<close> of \<^verbatim>\<open>Q\<close> or \<^verbatim>\<open>J\<close>.\<close>

definition format_key :: "pykey \<Rightarrow> error + pykey" where
  "format_key k =
     (case k of
        KStr t \<Rightarrow> if CHR '','' \<in> set t then pair_of_text t else Inr k
      | _ \<Rightarrow> Inr k)"

text \<open>The key stored for a key \<open>i\<close> of \<^verbatim>\<open>h\<close>: \<^verbatim>\<open>int(i) if isinstance(i, str) else i\<close>.\<close>

definition format_h_key :: "pykey \<Rightarrow> error + pykey" where
  "format_h_key i =
     (case i of
        KStr t \<Rightarrow> (case py_int t of Inl e \<Rightarrow> Inl e | Inr n \<Rightarrow> Inr (KInt n))
      | _ \<Rightarrow> Inr i)"

text \<open>
  Filling a new dictionary from the items of a given one, in order; \<open>formatted\<close> is the
  dictionary built so far. Assigning to a key already present replaces its value and
  keeps its place.
\<close>

fun format_dict :: "(pykey \<Rightarrow> error + pykey) \<Rightarrow> pydict \<Rightarrow> coeffs \<Rightarrow> error + coeffs" where
  "format_dict fk [] formatted = Inr formatted"
| "format_dict fk ((k, v) # rest) formatted =
     (case fk k of
        Inl e \<Rightarrow> Inl e
      | Inr k' \<Rightarrow>
          (case py_float v of
             Inl e \<Rightarrow> Inl e
           | Inr x \<Rightarrow> format_dict fk rest (AList.update k' x formatted)))"

text \<open>
  \<^verbatim>\<open>for i, j in formatted_Q.keys()\<close>: unpacking one key into two names. A tuple or a
  string of length two unpacks; an integer is not iterable.
\<close>

definition unpack_pair :: "pykey \<Rightarrow> error + (pykey \<times> pykey)" where
  "unpack_pair k =
     (case k of
        KInt n \<Rightarrow> Inl (TypeError InterpreterMsg)
      | KStr t \<Rightarrow>
          (case t of
             [a, b] \<Rightarrow> Inr (KStr [a], KStr [b])
           | _ \<Rightarrow> Inl (ValueError InterpreterMsg))
      | KTuple xs \<Rightarrow>
          (case xs of
             [a, b] \<Rightarrow> Inr (a, b)
           | _ \<Rightarrow> Inl (ValueError InterpreterMsg)))"

fun unpack_all :: "pykey list \<Rightarrow> error + (pykey \<times> pykey) list" where
  "unpack_all [] = Inr []"
| "unpack_all (k # ks) =
     (case unpack_pair k of
        Inl e \<Rightarrow> Inl e
      | Inr p \<Rightarrow>
          (case unpack_all ks of
             Inl e \<Rightarrow> Inl e
           | Inr ps \<Rightarrow> Inr (p # ps)))"

text \<open>
  \<^verbatim>\<open>len(set([i for i, j in formatted_Q.keys()] + [j for i, j in formatted_Q.keys()]))\<close>
\<close>

definition count_variables :: "coeffs \<Rightarrow> error + nat" where
  "count_variables formatted_Q =
     (case unpack_all (map fst formatted_Q) of
        Inl e \<Rightarrow> Inl e
      | Inr ps \<Rightarrow>
          (case unpack_all (map fst formatted_Q) of
             Inl e \<Rightarrow> Inl e
           | Inr qs \<Rightarrow> Inr (card (set (map fst ps @ map snd qs)))))"

record problem_summary =
  s_problem_id :: string
  s_type :: string
  s_description :: string
  num_variables :: nat

definition create_qubo ::
  "string \<Rightarrow> pydict \<Rightarrow> string \<Rightarrow> server \<Rightarrow> (error + problem_summary) \<times> server" where
  "create_qubo uuid Q description s =
     (case format_dict format_key Q [] of
        Inl e \<Rightarrow> (Inl e, s)
      | Inr formatted_Q \<Rightarrow>
          let s' = s\<lparr>problems := (problems s)(uuid \<mapsto> Qubo uuid formatted_Q description)\<rparr>
          in (case count_variables formatted_Q of
                Inl e \<Rightarrow> (Inl e, s')
              | Inr n \<Rightarrow>
                  (Inr \<lparr>s_problem_id = uuid, s_type = ''qubo'',
                        s_description = description, num_variables = n\<rparr>, s')))"

definition create_ising ::
  "string \<Rightarrow> pydict \<Rightarrow> pydict \<Rightarrow> string \<Rightarrow> server \<Rightarrow> (error + problem_summary) \<times> server" where
  "create_ising uuid h J description s =
     (case format_dict format_h_key h [] of
        Inl e \<Rightarrow> (Inl e, s)
      | Inr formatted_h \<Rightarrow>
          (case format_dict format_key J [] of
             Inl e \<Rightarrow> (Inl e, s)
           | Inr formatted_J \<Rightarrow>
               (Inr \<lparr>s_problem_id = uuid, s_type = ''ising'',
                     s_description = description, num_variables = length formatted_h\<rparr>,
                s\<lparr>problems := (problems s)(uuid \<mapsto> Ising uuid formatted_h formatted_J description)\<rparr>)))"

subsection \<open>Solving\<close>

text \<open>The fabricated assignment: five variables, two of them set to 1.\<close>

definition mock_solution :: "string \<Rightarrow> (string \<times> int) list" where
  "mock_solution ptype =
     (if ptype = ''qubo'' then
        AList.update ''2'' 1 (AList.update ''0'' 1
          (map (\<lambda>var. (py_str (int var), 0)) [0..<5]))
      else
        AList.update ''3'' 1 (AList.update ''0'' 1
          (map (\<lambda>var. (py_str (int var), - 1)) [0..<5])))"

text \<open>
  The body of \<^verbatim>\<open>solve_problem\<close>, given the values bound to its parameters:
  \<open>kwargs\<close> holds the keyword arguments that no named parameter took. The body reads
  \<^verbatim>\<open>kwargs.get("num_reads", 100)\<close>, never the parameter \<^verbatim>\<open>num_reads\<close>. The division by
  \<^verbatim>\<open>1000.0\<close> converts its left operand as \<^verbatim>\<open>float()\<close> does.
\<close>

definition solve_problem_body ::
  "string \<Rightarrow> string \<Rightarrow> pyval \<Rightarrow> pyval \<Rightarrow> (string \<rightharpoonup> pyval) \<Rightarrow> server
     \<Rightarrow> (error + result) \<times> server" where
  "solve_problem_body uuid pid num_reads annealing_time kwargs s =
     (case problems s pid of
        None \<Rightarrow> (Inl (ValueError (Msg (''Problem ID '' @ pid @ '' not found''))), s)
      | Some p \<Rightarrow>
          (case py_float (case kwargs ''num_reads'' of None \<Rightarrow> PyInt 100 | Some v \<Rightarrow> v) of
             Inl e \<Rightarrow> (Inl e, s)
           | Inr n \<Rightarrow>
               let r = \<lparr>result_id = uuid,
                        problem_id = pid,
                        energy = - 1.5,
                        solution = mock_solution (problem_type p),
                        qpu_access_time = 0.05,
                        execution_time = 0.05,
                        total_annealing_time = 0.05 * (n / 1000),
                        status = ''COMPLETED''\<rparr>
               in (Inr r, s\<lparr>results := (results s)(uuid \<mapsto> r)\<rparr>)))"

text \<open>
  A call \<^verbatim>\<open>solve_problem(problem_id, **kw)\<close>: the interpreter binds \<^verbatim>\<open>num_reads\<close> and
  \<^verbatim>\<open>annealing_time\<close> to the named parameters (defaults 100 and 20) and passes the
  remaining keyword arguments as \<^verbatim>\<open>kwargs\<close>.
\<close>

definition solve_problem ::
  "string \<Rightarrow> string \<Rightarrow> (string \<rightharpoonup> pyval) \<Rightarrow> server \<Rightarrow> (error + result) \<times> server" where
  "solve_problem uuid pid kw s =
     solve_problem_body uuid pid
       (case kw ''num_reads'' of None \<Rightarrow> PyInt 100 | Some v \<Rightarrow> v)
       (case kw ''annealing_time'' of None \<Rightarrow> PyInt 20 | Some v \<Rightarrow> v)
       (kw |` (- {''num_reads'', ''annealing_time''})) s"

record annealing_status =
  min_annealing_time_ns :: int
  max_annealing_time_ns :: int
  current_annealing_time_ns :: int
  total_annealing_time_ns :: int
  time_limit :: real
  a_total_annealing_time :: real
  remaining_time :: real

definition get_annealing_time_status :: "server \<Rightarrow> annealing_status" where
  "get_annealing_time_status s =
     \<lparr>min_annealing_time_ns = 200,
      max_annealing_time_ns = 2000,
      current_annealing_time_ns = 500,
      total_annealing_time_ns = 500,
      time_limit = 0.1,
      a_total_annealing_time = 0.0,
      remaining_time = 0.1 - 0.0\<rparr>"

subsection \<open>The tool dispatcher\<close>

text \<open>
  The \<^verbatim>\<open>arguments\<close> dictionary of a tool call, restricted to the properties the tools'
  input schemas declare, each with its declared type; \<open>None\<close> is an absent key.
\<close>

record arguments =
  arg_use_simulator :: "bool option"
  arg_simulator_type :: "string option"
  arg_Q :: "pydict option"
  arg_h :: "pydict option"
  arg_J :: "pydict option"
  arg_description :: "string option"
  arg_problem_id :: "string option"

datatype tool_result =
    StatusResult simulator_status
  | ConfigResult config_update
  | SummaryResult problem_summary
  | SolveResult result
  | AnnealingResult annealing_status

definition returning ::
  "('a \<Rightarrow> tool_result) \<Rightarrow> (error + 'a) \<times> server \<Rightarrow> (error + tool_result) \<times> server" where
  "returning C out = (case fst out of Inl e \<Rightarrow> Inl e | Inr x \<Rightarrow> Inr (C x), snd out)"

text \<open>
  \<^verbatim>\<open>raise McpError(text)\<close>. The library's exception class \<^verbatim>\<open>McpError\<close> is constructed from
  an \<^verbatim>\<open>ErrorData\<close> object, whose attribute \<^verbatim>\<open>message\<close> the constructor reads. The
  dispatcher passes a \<^verbatim>\<open>str\<close>, which has no such attribute: the construction itself raises
  \<^verbatim>\<open>AttributeError\<close>, and that is the exception the statement propagates.
\<close>

definition raise_McpError :: "message \<Rightarrow> error" where
  "raise_McpError text = AttributeError InterpreterMsg"

text \<open>The \<^verbatim>\<open>try\<close> block of \<^verbatim>\<open>call_tool\<close>, up to the value of \<^verbatim>\<open>result\<close>.\<close>

definition dispatch ::
  "string \<Rightarrow> string \<Rightarrow> arguments \<Rightarrow> server \<Rightarrow> (error + tool_result) \<times> server" where
  "dispatch uuid name args s =
     (if name = ''get_simulator_status'' then
        (Inr (StatusResult (get_simulator_status s)), s)
      else if name = ''set_simulator_config'' then
        returning ConfigResult
          (set_simulator_config
             (case arg_use_simulator args of None \<Rightarrow> True | Some b \<Rightarrow> b)
             (case arg_simulator_type args of None \<Rightarrow> ''dwave'' | Some t \<Rightarrow> t) s)
      else if name = ''create_qubo'' then
        (case arg_Q args of
           None \<Rightarrow> (Inl (raise_McpError (Msg ''Missing required parameter: Q'')), s)
         | Some Q \<Rightarrow>
             returning SummaryResult
               (create_qubo uuid Q
                  (case arg_description args of None \<Rightarrow> [] | Some d \<Rightarrow> d) s))
      else if name = ''create_ising'' then
        (if arg_h args = None \<or> arg_J args = None then
           (Inl (raise_McpError (Msg ''Missing required parameters: h and J'')), s)
         else
           returning SummaryResult
             (create_ising uuid
                (case arg_h args of None \<Rightarrow> [] | Some h \<Rightarrow> h)
                (case arg_J args of None \<Rightarrow> [] | Some J \<Rightarrow> J)
                (case arg_description args of None \<Rightarrow> [] | Some d \<Rightarrow> d) s))
      else if name = ''solve_problem'' then
        (case arg_problem_id args of
           None \<Rightarrow> (Inl (raise_McpError (Msg ''Missing required parameter: problem_id'')), s)
         | Some pid \<Rightarrow> returning SolveResult (solve_problem uuid pid Map.empty s))
      else if name = ''get_annealing_time_status'' then
        (Inr (AnnealingResult (get_annealing_time_status s)), s)
      else
        (Inl (raise_McpError (Msg (''Unknown tool: '' @ name))), s))"

text \<open>
  \<^verbatim>\<open>except Exception as e: raise McpError(f"Error processing D-Wave server query: {str(e)}")\<close>
\<close>

definition str_of_error :: "error \<Rightarrow> message" where
  "str_of_error e =
     (case e of
        ValueError m \<Rightarrow> m
      | TypeError m \<Rightarrow> m
      | OverflowError m \<Rightarrow> m
      | AttributeError m \<Rightarrow> m)"

definition wrap_error :: "error \<Rightarrow> error" where
  "wrap_error e =
     raise_McpError
       (case str_of_error e of
          Msg t \<Rightarrow> Msg (''Error processing D-Wave server query: '' @ t)
        | InterpreterMsg \<Rightarrow> InterpreterMsg)"

text \<open>
  \<^verbatim>\<open>call_tool\<close>. The payload is returned as a value; its rendering as text by
  \<^verbatim>\<open>json.dumps\<close> belongs to the library.
\<close>

definition call_tool ::
  "string \<Rightarrow> string \<Rightarrow> arguments \<Rightarrow> server \<Rightarrow> (error + tool_result) \<times> server" where
  "call_tool uuid name args s =
     (case dispatch uuid name args s of
        (Inl e, s') \<Rightarrow> (Inl (wrap_error e), s')
      | (Inr r, s') \<Rightarrow> (Inr r, s'))"

section \<open>Notions used to state the properties\<close>

text \<open>A call of the dispatcher with an empty \<^verbatim>\<open>arguments\<close> dictionary.\<close>

definition no_arguments :: arguments where
  "no_arguments =
     \<lparr>arg_use_simulator = None, arg_simulator_type = None, arg_Q = None, arg_h = None,
      arg_J = None, arg_description = None, arg_problem_id = None\<rparr>"

text \<open>
  The six operations of the Registry with their arguments, and the state a sequence of
  calls leaves behind. A call that raises still counts: the state it leaves is kept.
\<close>

datatype operation =
    GetSimulatorStatus
  | SetSimulatorConfig bool string
  | CreateQubo string pydict string
  | CreateIsing string pydict pydict string
  | SolveProblem string string "string \<rightharpoonup> pyval"
  | GetAnnealingTimeStatus

fun apply_operation :: "operation \<Rightarrow> server \<Rightarrow> server" where
  "apply_operation GetSimulatorStatus s = s"
| "apply_operation (SetSimulatorConfig use_sim sim_type) s =
     snd (set_simulator_config use_sim sim_type s)"
| "apply_operation (CreateQubo uuid Q d) s = snd (create_qubo uuid Q d s)"
| "apply_operation (CreateIsing uuid h J d) s = snd (create_ising uuid h J d s)"
| "apply_operation (SolveProblem uuid pid kw) s = snd (solve_problem uuid pid kw s)"
| "apply_operation GetAnnealingTimeStatus s = s"

fun run :: "operation list \<Rightarrow> server \<Rightarrow> server" where
  "run [] s = s"
| "run (op # ops) s = run ops (apply_operation op s)"

text \<open>
  The three ways of writing the key of a pairwise coefficient: the native pair
  \<^verbatim>\<open>(i, j)\<close>, the text \<^verbatim>\<open>"i,j"\<close> and the text \<^verbatim>\<open>"(i,j)"\<close>, with the integers in the
  decimal notation of \<^verbatim>\<open>str\<close>.
\<close>

datatype key_form = Native | Plain | Parenthesised

fun pair_key :: "key_form \<Rightarrow> int \<Rightarrow> int \<Rightarrow> pykey" where
  "pair_key Native i j = KTuple [KInt i, KInt j]"
| "pair_key Plain i j = KStr (py_str i @ '','' @ py_str j)"
| "pair_key Parenthesised i j = KStr (''('' @ py_str i @ '','' @ py_str j @ '')'')"

text \<open>An entry of a pair-keyed dictionary: a key in one of the three forms, a value.\<close>

fun pair_entry :: "key_form \<times> int \<times> int \<times> pyval \<Rightarrow> pykey \<times> pyval" where
  "pair_entry (f, i, j, v) = (pair_key f i j, v)"

text \<open>
  A value that is a coefficient: a float, or an integer small enough to have a float.
\<close>

definition is_coefficient :: "pyval \<Rightarrow> bool" where
  "is_coefficient v =
     (case v of
        PyInt n \<Rightarrow> \<bar>n\<bar> < 2 ^ 1024 - 2 ^ 970
      | PyFloat x \<Rightarrow> True
      | PyNone \<Rightarrow> False)"

text \<open>
  An index that can be read back in the given form: a text must stay within the limit
  on the number of digits.
\<close>

definition readable :: "key_form \<Rightarrow> int \<Rightarrow> bool" where
  "readable f i = (f = Native \<or> \<bar>i\<bar> < 10 ^ int_max_str_digits)"

text \<open>A valid entry: both indices readable, the value a coefficient.\<close>

fun valid_entry :: "key_form \<times> int \<times> int \<times> pyval \<Rightarrow> bool" where
  "valid_entry (f, i, j, v) = (readable f i \<and> readable f j \<and> is_coefficient v)"

text \<open>The integer a key of \<^verbatim>\<open>h\<close> stands for, when it stands for one.\<close>

definition h_key_value :: "pykey \<Rightarrow> int option" where
  "h_key_value k =
     (case k of
        KInt n \<Rightarrow> Some n
      | KStr t \<Rightarrow> (case py_int t of Inl e \<Rightarrow> None | Inr n \<Rightarrow> Some n)
      | KTuple xs \<Rightarrow> None)"

text \<open>Keys that can be taken apart into two components.\<close>

definition unpackable :: "pykey \<Rightarrow> bool" where
  "unpackable k =
     (case k of
        KInt n \<Rightarrow> False
      | KStr t \<Rightarrow> length t = 2
      | KTuple xs \<Rightarrow> length xs = 2)"

text \<open>Keys that the creation loop stores as they are.\<close>

definition kept_as_is :: "pykey \<Rightarrow> bool" where
  "kept_as_is k = (case k of KStr t \<Rightarrow> CHR '','' \<notin> set t | _ \<Rightarrow> True)"

text \<open>Every stored result names a stored problem.\<close>

definition results_refer :: "server \<Rightarrow> bool" where
  "results_refer s = (\<forall>rid r. results s rid = Some r \<longrightarrow> problem_id r \<in> dom (problems s))"

section \<open>Properties\<close>

subsection \<open>How the operations touch the two maps\<close>

lemma problems_set_simulator_config:
  "problems (snd (set_simulator_config b t s)) = problems s"
  "results (snd (set_simulator_config b t s)) = results s"
  by (simp_all add: set_simulator_config_def Let_def)

lemma dom_problems_create_qubo:
  "dom (problems s) \<subseteq> dom (problems (snd (create_qubo u Q d s)))"
  by (auto simp: create_qubo_def Let_def split: sum.splits)

lemma results_create_qubo: "results (snd (create_qubo u Q d s)) = results s"
  by (simp add: create_qubo_def Let_def split: sum.splits)

lemma dom_problems_create_ising:
  "dom (problems s) \<subseteq> dom (problems (snd (create_ising u h J d s)))"
  by (auto simp: create_ising_def split: sum.splits)

lemma results_create_ising: "results (snd (create_ising u h J d s)) = results s"
  by (simp add: create_ising_def split: sum.splits)

lemma problems_solve_problem: "problems (snd (solve_problem u pid kw s)) = problems s"
  by (simp add: solve_problem_def solve_problem_body_def Let_def
      split: option.splits sum.splits)

lemma results_solve_problem:
  "results (snd (solve_problem u pid kw s)) rid = Some r \<Longrightarrow>
   results s rid = Some r \<or> problem_id r \<in> dom (problems s)"
  by (auto simp: solve_problem_def solve_problem_body_def Let_def
      split: option.splits sum.splits if_splits)

lemma create_qubo_empty:
  "create_qubo u [] d (DWaveServer None) =
     (Inr \<lparr>s_problem_id = u, s_type = ''qubo'', s_description = d, num_variables = 0\<rparr>,
      (DWaveServer None)\<lparr>problems := [u \<mapsto> Qubo u [] d]\<rparr>)"
  by (simp add: create_qubo_def count_variables_def DWaveServer_def)

subsection \<open>Values that convert to floats\<close>

lemma is_coefficient_small: "\<bar>n\<bar> \<le> 1000 \<Longrightarrow> is_coefficient (PyInt n)"
proof -
  assume "\<bar>n\<bar> \<le> 1000"
  moreover have "(1000 :: int) < 2 ^ 1024 - 2 ^ 970"
    by simp
  ultimately show ?thesis
    by (simp add: is_coefficient_def)
qed

lemma py_float_coefficient: "is_coefficient v \<Longrightarrow> \<exists>x. py_float v = Inr x"
  by (cases v) (simp_all add: is_coefficient_def py_float_def)

lemma py_float_hundred: "py_float (PyInt 100) = Inr 100"
  by (simp add: py_float_def)

subsection \<open>Reading back the text of an integer\<close>

lemma is_digit_not_special:
  "is_digit c \<Longrightarrow> c \<noteq> CHR '','' \<and> c \<noteq> CHR ''('' \<and> c \<noteq> CHR '')'' \<and> c \<noteq> CHR ''-'' \<and>
     c \<noteq> CHR ''+'' \<and> c \<noteq> CHR ''_'' \<and> \<not> is_space c"
  by (auto simp: is_digit_def is_space_def)

lemma digit_char: "d < 10 \<Longrightarrow> is_digit (char_of (48 + d)) \<and> digit_val (char_of (48 + d)) = d"
  by (simp add: is_digit_def digit_val_def)

lemma digits_of_digits: "c \<in> set (digits_of n) \<Longrightarrow> is_digit c"
proof (induction n rule: digits_of.induct)
  case (1 n)
  then show ?case
    by (subst (asm) digits_of.simps) (auto simp: digit_char split: if_splits)
qed

lemma digits_of_nonempty: "digits_of n \<noteq> []"
  by (subst digits_of.simps) simp

lemma int_digits_all:
  "\<forall>c\<in>set xs. is_digit c \<Longrightarrow>
   int_digits acc xs = Some (foldl (\<lambda>a c. 10 * a + digit_val c) acc xs)"
  by (induction acc xs rule: int_digits.induct) simp_all

lemma int_literal_all:
  "xs \<noteq> [] \<Longrightarrow> \<forall>c\<in>set xs. is_digit c \<Longrightarrow>
   int_literal xs = Some (foldl (\<lambda>a c. 10 * a + digit_val c) 0 xs)"
  by (cases xs) (simp_all add: int_literal_def int_digits_all)

lemma foldl_digits_of: "foldl (\<lambda>a c. 10 * a + digit_val c) 0 (digits_of n) = n"
proof (induction n rule: digits_of.induct)
  case (1 n)
  show ?case
  proof (cases "n < 10")
    case True
    then show ?thesis
      by (subst digits_of.simps) (simp add: digit_char)
  next
    case False
    with 1 show ?thesis
      by (subst digits_of.simps) (simp add: digit_char)
  qed
qed

lemma int_literal_digits_of: "int_literal (digits_of n) = Some n"
  using int_literal_all [of "digits_of n"] digits_of_digits [of _ n]
  by (simp add: digits_of_nonempty foldl_digits_of)

lemma py_strip_id:
  assumes "xs \<noteq> []" "\<not> P (hd xs)" "\<not> P (last xs)"
  shows "py_strip P xs = xs"
proof -
  have "dropWhile P xs = xs"
    using assms(2) by (simp add: dropWhile_eq_self_iff)
  moreover have "dropWhile P (rev xs) = rev xs"
    using assms(1,3) by (simp add: dropWhile_eq_self_iff hd_rev)
  ultimately show ?thesis
    by (simp add: py_strip_def)
qed

text \<open>The text of an integer: an optional minus sign, then digits.\<close>

lemma py_str_shape:
  "py_str i \<noteq> []"
  "is_digit (last (py_str i))"
  "is_digit (hd (py_str i)) \<or> hd (py_str i) = CHR ''-''"
  "c \<in> set (py_str i) \<Longrightarrow> is_digit c \<or> c = CHR ''-''"
  using digits_of_nonempty [of "nat i"] digits_of_nonempty [of "nat (- i)"]
    digits_of_digits [of _ "nat i"] digits_of_digits [of _ "nat (- i)"]
  by (auto simp: py_str_def split: if_splits)

lemma small_index: "\<bar>i :: int\<bar> < 10 \<Longrightarrow> \<bar>i\<bar> < 10 ^ int_max_str_digits"
proof -
  assume i: "\<bar>i\<bar> < 10"
  have "(10 :: int) ^ 1 \<le> 10 ^ int_max_str_digits"
    by (rule power_increasing) (simp_all add: int_max_str_digits_def)
  then have "(10 :: int) \<le> 10 ^ int_max_str_digits"
    by simp
  with i show ?thesis
    by (rule order_less_le_trans)
qed

lemma length_digits_of_le: "n < 10 ^ Suc k \<Longrightarrow> length (digits_of n) \<le> Suc k"
proof (induction k arbitrary: n)
  case 0
  then show ?case
    by (subst digits_of.simps) simp
next
  case (Suc k)
  show ?case
  proof (cases "n < 10")
    case True
    then show ?thesis
      by (subst digits_of.simps) simp
  next
    case False
    have "n div 10 < 10 ^ Suc k"
      using Suc.prems by (simp add: less_mult_imp_div_less mult.commute)
    then have "length (digits_of (n div 10)) \<le> Suc k"
      by (rule Suc.IH)
    with False show ?thesis
      by (subst digits_of.simps) simp
  qed
qed

lemma length_digits_of_gt: "10 ^ k \<le> n \<Longrightarrow> k < length (digits_of n)"
proof (induction k arbitrary: n)
  case 0
  then show ?case
    by (subst digits_of.simps) simp
next
  case (Suc k)
  have "(1 :: nat) \<le> 10 ^ k"
    by simp
  then have "(10 :: nat) \<le> 10 * 10 ^ k"
    by linarith
  moreover have "10 * 10 ^ k \<le> n"
    using Suc.prems by simp
  ultimately have ge: "10 \<le> n"
    by (rule order_trans)
  have "10 ^ k \<le> n div 10"
    using Suc.prems by (simp add: less_eq_div_iff_mult_less_eq mult.commute)
  then have "k < length (digits_of (n div 10))"
    by (rule Suc.IH)
  with ge show ?case
    by (subst digits_of.simps) simp
qed

lemma filter_digits_of: "filter is_digit (digits_of n) = digits_of n"
  using digits_of_digits by (simp add: filter_id_conv)

lemma length_digits_of_within:
  assumes "n < 10 ^ k" "0 < k"
  shows "length (digits_of n) \<le> k"
proof -
  obtain k' where k: "k = Suc k'"
    using assms(2) by (cases k) auto
  show ?thesis
    using assms(1) unfolding k by (rule length_digits_of_le)
qed

lemma int_max_str_digits_bounds: "0 < int_max_str_digits" "10 < int_max_str_digits"
  by (simp_all add: int_max_str_digits_def)

lemma checked_literal_short: "length s \<le> 10 \<Longrightarrow> checked_literal s = int_literal s"
proof -
  assume "length s \<le> 10"
  moreover have "length (filter is_digit s) \<le> length s"
    by (rule length_filter_le)
  ultimately have "\<not> int_max_str_digits < length (filter is_digit s)"
    using int_max_str_digits_bounds(2) by linarith
  then show ?thesis
    by (simp add: checked_literal_def)
qed

lemma checked_literal_digits_of:
  assumes "n < 10 ^ int_max_str_digits"
  shows "checked_literal (digits_of n) = Some n"
proof -
  have "length (digits_of n) \<le> int_max_str_digits"
    using assms int_max_str_digits_bounds(1) by (rule length_digits_of_within)
  then have "\<not> int_max_str_digits < length (filter is_digit (digits_of n))"
    by (simp add: filter_digits_of)
  then show ?thesis
    by (simp add: checked_literal_def int_literal_digits_of)
qed

lemma checked_literal_too_long:
  assumes "10 ^ int_max_str_digits \<le> n"
  shows "checked_literal (digits_of n) = None"
  using length_digits_of_gt [OF assms]
  by (simp add: checked_literal_def filter_digits_of)

lemma nat_abs_bound: "\<bar>i :: int\<bar> < 10 ^ k \<Longrightarrow> nat \<bar>i\<bar> < 10 ^ k"
  by (simp add: nat_less_iff)

lemma py_str_strip: "py_strip is_space (py_str i) = py_str i"
proof -
  have "\<not> is_space (hd (py_str i))" "\<not> is_space (last (py_str i))"
    using py_str_shape(2,3) [of i] is_digit_not_special by (auto simp: is_space_def)
  then show ?thesis
    by (simp add: py_strip_id py_str_shape(1))
qed

lemma py_int_digits_of:
  "py_int (digits_of n) =
     (case checked_literal (digits_of n) of
        None \<Rightarrow> Inl (ValueError InterpreterMsg)
      | Some m \<Rightarrow> Inr (int m))"
proof -
  obtain c cs where d: "digits_of n = c # cs"
    using digits_of_nonempty [of n] by (cases "digits_of n") auto
  then have "is_digit c"
    using digits_of_digits [of c n] by simp
  then have "c \<noteq> CHR ''-''" "c \<noteq> CHR ''+''"
    using is_digit_not_special by auto
  moreover have "py_strip is_space (digits_of n) = digits_of n"
    using py_str_strip [of "int n"] by (simp add: py_str_def)
  ultimately show ?thesis
    by (simp add: py_int_def d)
qed

lemma py_int_minus_digits_of:
  "py_int (CHR ''-'' # digits_of n) =
     (case checked_literal (digits_of n) of
        None \<Rightarrow> Inl (ValueError InterpreterMsg)
      | Some m \<Rightarrow> Inr (- int m))"
proof -
  have "0 < n \<Longrightarrow> py_strip is_space (CHR ''-'' # digits_of n) = CHR ''-'' # digits_of n"
    using py_str_strip [of "- int n"] by (simp add: py_str_def)
  moreover have "py_strip is_space (CHR ''-'' # digits_of 0) = CHR ''-'' # digits_of 0"
    by (subst (1 2) digits_of.simps) (simp add: py_strip_def is_space_def)
  ultimately have "py_strip is_space (CHR ''-'' # digits_of n) = CHR ''-'' # digits_of n"
    by (cases "n = 0") simp_all
  then show ?thesis
    by (simp add: py_int_def)
qed

lemma py_int_py_str:
  assumes "\<bar>i\<bar> < 10 ^ int_max_str_digits"
  shows "py_int (py_str i) = Inr i"
proof -
  have "checked_literal (digits_of (nat \<bar>i\<bar>)) = Some (nat \<bar>i\<bar>)"
    using assms by (intro checked_literal_digits_of nat_abs_bound)
  then show ?thesis
    by (cases "i < 0") (simp_all add: py_str_def py_int_digits_of py_int_minus_digits_of)
qed

lemma py_int_too_long:
  assumes "10 ^ int_max_str_digits \<le> i"
  shows "py_int (py_str i) = Inl (ValueError InterpreterMsg)"
proof -
  have "(0 :: int) < 10 ^ int_max_str_digits"
    by simp
  with assms have "0 \<le> i"
    by linarith
  moreover have "10 ^ int_max_str_digits \<le> nat i"
    using assms \<open>0 \<le> i\<close> by (simp add: le_nat_iff)
  ultimately show ?thesis
    by (simp add: py_str_def py_int_digits_of checked_literal_too_long)
qed

lemma py_split_no_sep: "sep \<notin> set a \<Longrightarrow> py_split sep a = [a]"
  by (induction a) auto

lemma py_split_append: "sep \<notin> set a \<Longrightarrow> py_split sep (a @ sep # b) = a # py_split sep b"
  by (induction a) auto

lemma py_str_no_comma: "CHR '','' \<notin> set (py_str i)"
  using py_str_shape(4) [of "CHR '',''" i] is_digit_not_special by auto

lemma split_pair_text:
  "py_split CHR '','' (py_str i @ '','' @ py_str j) = [py_str i, py_str j]"
  by (simp add: py_split_append py_split_no_sep py_str_no_comma)

lemma strip_parens_plain:
  "py_strip (\<lambda>c. c \<in> set ''()'') (py_str i @ '','' @ py_str j) = py_str i @ '','' @ py_str j"
proof (rule py_strip_id)
  show "py_str i @ '','' @ py_str j \<noteq> []" by simp
  show "\<not> hd (py_str i @ '','' @ py_str j) \<in> set ''()''"
    using py_str_shape(1,3) [of i] is_digit_not_special by (auto simp: hd_append)
  show "\<not> last (py_str i @ '','' @ py_str j) \<in> set ''()''"
    using py_str_shape(1,2) [of j] is_digit_not_special by auto
qed

lemma strip_parens_parenthesised:
  "py_strip (\<lambda>c. c \<in> set ''()'') (''('' @ py_str i @ '','' @ py_str j @ '')'') =
     py_str i @ '','' @ py_str j"
proof -
  have h: "\<not> hd (py_str i @ '','' @ py_str j) \<in> set ''()''"
    using py_str_shape(1,3) [of i] is_digit_not_special by (auto simp: hd_append)
  have l: "\<not> last (py_str i @ '','' @ py_str j) \<in> set ''()''"
    using py_str_shape(1,2) [of j] is_digit_not_special by auto
  have "dropWhile (\<lambda>c. c \<in> set ''()'') (''('' @ py_str i @ '','' @ py_str j @ '')'') =
      (py_str i @ '','' @ py_str j) @ '')''"
    using h py_str_shape(1) [of i] by (cases "py_str i") auto
  moreover have "dropWhile (\<lambda>c. c \<in> set ''()'') (rev ((py_str i @ '','' @ py_str j) @ '')'')) =
      rev (py_str i @ '','' @ py_str j)"
    using l py_str_shape(1) [of j]
    by (cases "rev (py_str j)") (auto simp: last_rev [symmetric] simp del: last_rev)
  ultimately show ?thesis
    by (simp only: py_strip_def rev_rev_ident)
qed

lemma format_key_native: "format_key (KTuple [KInt i, KInt j]) = Inr (KTuple [KInt i, KInt j])"
  by (simp add: format_key_def)

lemma format_key_pair_key:
  assumes "readable f i" "readable f j"
  shows "format_key (pair_key f i j) = Inr (KTuple [KInt i, KInt j])"
proof (cases f)
  case Native
  then show ?thesis by (simp add: format_key_def)
next
  case Plain
  then have "py_int (py_str i) = Inr i" "py_int (py_str j) = Inr j"
    using assms by (simp_all add: readable_def py_int_py_str)
  with Plain show ?thesis
    by (simp add: format_key_def pair_of_text_def strip_parens_plain [simplified]
        split_pair_text [simplified])
next
  case Parenthesised
  then have "py_int (py_str i) = Inr i" "py_int (py_str j) = Inr j"
    using assms by (simp_all add: readable_def py_int_py_str)
  with Parenthesised show ?thesis
    by (simp add: format_key_def pair_of_text_def strip_parens_parenthesised [simplified]
        split_pair_text [simplified])
qed

subsection \<open>The creation loop and the count of variables\<close>

lemma format_dict_step:
  "format_dict fk ((k, v) # rest) acc = Inr fq \<Longrightarrow>
   \<exists>k' x. fk k = Inr k' \<and> py_float v = Inr x \<and>
     format_dict fk rest (AList.update k' x acc) = Inr fq"
  by (simp split: sum.splits)

lemma format_dict_keys:
  "format_dict fk Q acc = Inr fq \<Longrightarrow>
   fst ` set fq = fst ` set acc \<union> {k'. \<exists>k \<in> fst ` set Q. fk k = Inr k'}"
proof (induction Q arbitrary: acc)
  case Nil
  then show ?case by simp
next
  case (Cons e rest)
  obtain k v where e: "e = (k, v)" by (cases e)
  from Cons.prems obtain k1 x where k1: "fk k = Inr k1"
    and r: "format_dict fk rest (AList.update k1 x acc) = Inr fq"
    unfolding e using format_dict_step by blast
  have "fst ` set fq =
      insert k1 (fst ` set acc) \<union> {k'. \<exists>k \<in> fst ` set rest. fk k = Inr k'}"
    using Cons.IH [OF r] by (simp add: dom_update)
  moreover have "{k'. \<exists>a \<in> fst ` set (e # rest). fk a = Inr k'} =
      insert k1 {k'. \<exists>a \<in> fst ` set rest. fk a = Inr k'}"
    unfolding e using k1 by auto
  ultimately show ?case by simp
qed

lemma format_dict_distinct:
  "format_dict fk Q acc = Inr fq \<Longrightarrow> distinct (map fst acc) \<Longrightarrow> distinct (map fst fq)"
proof (induction fk Q acc arbitrary: fq rule: format_dict.induct)
  case (1 fk formatted)
  then show ?case by simp
next
  case (2 fk k v rest formatted)
  then show ?case
    by (auto simp: distinct_update split: sum.splits)
qed

lemma format_dict_succeeds:
  "\<forall>(k, v) \<in> set Q. (\<exists>k'. fk k = Inr k') \<and> is_coefficient v \<Longrightarrow>
   \<exists>fq. format_dict fk Q acc = Inr fq"
proof (induction Q arbitrary: acc)
  case Nil
  then show ?case by simp
next
  case (Cons e rest)
  obtain k v where e: "e = (k, v)" by (cases e)
  from Cons.prems obtain k' x where "fk k = Inr k'" "py_float v = Inr x"
    unfolding e using py_float_coefficient [of v] by auto
  moreover have "\<exists>fq. format_dict fk rest (AList.update k' x acc) = Inr fq"
    using Cons.prems by (intro Cons.IH) simp
  ultimately show ?case
    unfolding e by simp
qed

lemma unpack_all_map:
  "\<forall>k \<in> set ks. unpack_pair k = Inr (g k) \<Longrightarrow> unpack_all ks = Inr (map g ks)"
  by (induction ks) simp_all

lemma unpack_all_fails:
  "k \<in> set ks \<Longrightarrow> \<not> unpackable k \<Longrightarrow> \<exists>e. unpack_all ks = Inl e"
proof (induction ks)
  case Nil
  then show ?case by simp
next
  case (Cons a ks)
  then show ?case
    by (auto simp: unpackable_def unpack_pair_def
        split: sum.splits pykey.splits list.splits)
qed

lemma count_variables_int_pairs:
  assumes "fst ` set fq = (\<lambda>(i, j). KTuple [KInt i, KInt j]) ` P"
  shows "count_variables fq = Inr (card (\<Union>(i, j) \<in> P. {i, j}))"
proof -
  let ?g = "\<lambda>k. projr (unpack_pair k)"
  have g: "?g (KTuple [KInt i, KInt j]) = (KInt i, KInt j)" for i j
    by (simp add: unpack_pair_def)
  have u: "unpack_all (map fst fq) = Inr (map ?g (map fst fq))"
  proof (rule unpack_all_map, rule ballI)
    fix k assume "k \<in> set (map fst fq)"
    then have "k \<in> (\<lambda>(i, j). KTuple [KInt i, KInt j]) ` P"
      using assms by simp
    then obtain i j where "k = KTuple [KInt i, KInt j]"
      by auto
    then show "unpack_pair k = Inr (?g k)"
      by (simp add: unpack_pair_def)
  qed
  have "set (map fst (map ?g (map fst fq)) @ map snd (map ?g (map fst fq))) =
      (\<lambda>k. fst (?g k)) ` (fst ` set fq) \<union> (\<lambda>k. snd (?g k)) ` (fst ` set fq)"
    by (simp add: image_image)
  also have "\<dots> = (\<lambda>p. KInt (fst p)) ` P \<union> (\<lambda>p. KInt (snd p)) ` P"
    unfolding assms by (simp add: image_image case_prod_beta g)
  also have "\<dots> = KInt ` (\<Union>p \<in> P. {fst p, snd p})"
    by blast
  also have "(\<Union>p \<in> P. {fst p, snd p}) = (\<Union>(i, j) \<in> P. {i, j})"
    by (simp add: case_prod_beta)
  finally have "card (set (map fst (map ?g (map fst fq)) @ map snd (map ?g (map fst fq)))) =
      card (\<Union>(i, j) \<in> P. {i, j})"
    by (simp add: card_image inj_on_def)
  then show ?thesis
    by (simp add: count_variables_def u)
qed

lemma format_dict_pair_entries:
  assumes "\<forall>e \<in> set es. valid_entry e"
  shows "\<exists>fq. format_dict format_key (map pair_entry es) [] = Inr fq \<and>
        fst ` set fq = (\<lambda>(i, j). KTuple [KInt i, KInt j]) ` ((\<lambda>(f, i, j, v). (i, j)) ` set es)"
proof -
  let ?np = "\<lambda>e :: key_form \<times> int \<times> int \<times> pyval.
    KTuple [KInt (fst (snd e)), KInt (fst (snd (snd e)))]"
  have fk: "format_key (fst (pair_entry e)) = Inr (?np e)" if "e \<in> set es" for e
  proof -
    obtain f i j v where e: "e = (f, i, j, v)" by (cases e)
    then have "readable f i" "readable f j"
      using assms that by auto
    then show ?thesis
      by (simp add: e format_key_pair_key)
  qed
  have co: "is_coefficient (snd (pair_entry e))" if "e \<in> set es" for e
  proof -
    obtain f i j v where e: "e = (f, i, j, v)" by (cases e)
    then show ?thesis
      using assms that by auto
  qed
  have "\<forall>(k, v) \<in> set (map pair_entry es). (\<exists>k'. format_key k = Inr k') \<and> is_coefficient v"
    using fk co by force
  then obtain fq where fq: "format_dict format_key (map pair_entry es) [] = Inr fq"
    using format_dict_succeeds by blast
  have "fst ` set fq = {k'. \<exists>k \<in> fst ` set (map pair_entry es). format_key k = Inr k'}"
    using format_dict_keys [OF fq] by simp
  also have "\<dots> = {k'. \<exists>e \<in> set es. format_key (fst (pair_entry e)) = Inr k'}"
    by (simp add: image_image)
  also have "\<dots> = {k'. \<exists>e \<in> set es. ?np e = k'}"
    using fk by auto
  also have "\<dots> = ?np ` set es"
    by blast
  also have "\<dots> = (\<lambda>(i, j). KTuple [KInt i, KInt j]) ` ((\<lambda>(f, i, j, v). (i, j)) ` set es)"
    by (simp add: image_image case_prod_beta)
  finally show ?thesis using fq by blast
qed

lemma py_str_small: "py_str 0 = ''0''" "py_str 1 = ''1''"
  by code_simp+

lemma format_h_key_value:
  "h_key_value k = Some n \<Longrightarrow> format_h_key k = Inr (KInt n)"
  by (auto simp: h_key_value_def format_h_key_def split: pykey.splits sum.splits)

lemma format_dict_length:
  assumes "format_dict fk Q [] = Inr fq"
  shows "length fq = card {k'. \<exists>k \<in> fst ` set Q. fk k = Inr k'}"
proof -
  have "distinct (map fst fq)"
    using format_dict_distinct [OF assms] by simp
  then have "length fq = card (fst ` set fq)"
    using distinct_card [of "map fst fq"] by simp
  then show ?thesis
    using format_dict_keys [OF assms] by simp
qed

lemma py_int_examples:
  "py_int ''0'' = Inr 0" "py_int ''1'' = Inr 1" "py_int ''01'' = Inr 1"
  "py_int ''a'' = Inl (ValueError InterpreterMsg)"
  by (simp_all add: py_int_def py_strip_def is_space_def checked_literal_short
      int_literal_def is_digit_def digit_val_def)

lemma format_dict_member:
  assumes "format_dict fk Q acc = Inr fq" "(k, v) \<in> set Q" "fk k = Inr k'"
  shows "k' \<in> fst ` set fq"
proof -
  have "k \<in> fst ` set Q"
    using assms(2) by force
  then have "k' \<in> {k'. \<exists>k \<in> fst ` set Q. fk k = Inr k'}"
    using assms(3) by blast
  then show ?thesis
    using format_dict_keys [OF assms(1)] by blast
qed

lemma h_key_value_examples:
  "h_key_value (KStr ''0'') = Some 0" "h_key_value (KStr ''1'') = Some 1"
  by (simp_all add: h_key_value_def py_int_examples)

lemma one_within_limit: "(1 :: int) < 10 ^ int_max_str_digits"
  using small_index [of 1] by simp

subsection \<open>The dispatcher's checks of required arguments\<close>

text \<open>
  C1 (as amended). For \<^verbatim>\<open>create_qubo\<close> (\<^verbatim>\<open>Q\<close>), \<^verbatim>\<open>create_ising\<close> (\<^verbatim>\<open>h\<close> and \<^verbatim>\<open>J\<close>) and
  \<^verbatim>\<open>solve_problem\<close> (\<^verbatim>\<open>problem_id\<close>), a call through the dispatcher that lacks a required
  argument fails, and it leaves the Registry as it was: no method of the Registry has
  run. \<^verbatim>\<open>set_simulator_config\<close> has no such check: a missing \<^verbatim>\<open>simulator_type\<close> is taken
  to be \<^verbatim>\<open>"dwave"\<close> and a missing \<^verbatim>\<open>use_simulator\<close> to be \<^verbatim>\<open>True\<close>, and the Registry's
  method is called with these values.
\<close>

theorem call_tool_missing_required:
  "(arg_Q args = None \<longrightarrow>
      (\<exists>e. call_tool u ''create_qubo'' args s = (Inl e, s))) \<and>
   (arg_h args = None \<or> arg_J args = None \<longrightarrow>
      (\<exists>e. call_tool u ''create_ising'' args s = (Inl e, s))) \<and>
   (arg_problem_id args = None \<longrightarrow>
      (\<exists>e. call_tool u ''solve_problem'' args s = (Inl e, s))) \<and>
   (arg_simulator_type args = None \<longrightarrow>
      call_tool u ''set_simulator_config'' args s =
        (Inr (ConfigResult
               \<lparr>cu_use_simulator = (case arg_use_simulator args of None \<Rightarrow> True | Some b \<Rightarrow> b),
                cu_simulator_type = ''dwave'', updated = True\<rparr>),
         s\<lparr>config :=
             \<lparr>use_simulator = (case arg_use_simulator args of None \<Rightarrow> True | Some b \<Rightarrow> b),
              simulator_type = ''dwave''\<rparr>\<rparr>)) \<and>
   (arg_use_simulator args = None \<longrightarrow>
      call_tool u ''set_simulator_config'' args s =
        call_tool u ''set_simulator_config'' (args\<lparr>arg_use_simulator := Some True\<rparr>) s)"
  by (simp add: call_tool_def dispatch_def returning_def set_simulator_config_def Let_def)

theorem call_tool_missing_required_witness:
  "arg_Q no_arguments = None \<and>
   (\<exists>e. call_tool ''u'' ''create_qubo'' no_arguments (DWaveServer None) =
      (Inl e, DWaveServer None)) \<and>
   (arg_h no_arguments = None \<or> arg_J no_arguments = None) \<and>
   (\<exists>e. call_tool ''u'' ''create_ising'' no_arguments (DWaveServer None) =
      (Inl e, DWaveServer None)) \<and>
   arg_problem_id no_arguments = None \<and>
   (\<exists>e. call_tool ''u'' ''solve_problem'' no_arguments (DWaveServer None) =
      (Inl e, DWaveServer None)) \<and>
   arg_simulator_type no_arguments = None \<and> arg_use_simulator no_arguments = None \<and>
   fst (call_tool ''u'' ''set_simulator_config'' no_arguments (DWaveServer None)) =
     Inr (ConfigResult
           \<lparr>cu_use_simulator = True, cu_simulator_type = ''dwave'', updated = True\<rparr>)"
  using call_tool_missing_required [of no_arguments "''u''" "DWaveServer None"]
  by (simp add: no_arguments_def)

text \<open>
  C1 as stated fails for \<^verbatim>\<open>set_simulator_config\<close>: called with no arguments at all on a
  server configured with \<^verbatim>\<open>use_simulator = False\<close>, the dispatcher succeeds and the
  configuration changes.
\<close>

theorem call_tool_set_config_defaults_counterexample:
  "arg_use_simulator no_arguments = None \<and> arg_simulator_type no_arguments = None \<and>
   fst (call_tool ''u'' ''set_simulator_config'' no_arguments
          (DWaveServer (Some (ServerConfig False)))) =
     Inr (ConfigResult
           \<lparr>cu_use_simulator = True, cu_simulator_type = ''dwave'', updated = True\<rparr>) \<and>
   use_simulator (config (DWaveServer (Some (ServerConfig False)))) = False \<and>
   use_simulator (config (snd (call_tool ''u'' ''set_simulator_config'' no_arguments
      (DWaveServer (Some (ServerConfig False)))))) = True"
  by (simp add: call_tool_def dispatch_def returning_def set_simulator_config_def Let_def
      no_arguments_def DWaveServer_def ServerConfig_def)

subsection \<open>Solving\<close>

text \<open>
  C4. \<^verbatim>\<open>solve_problem\<close> raises the not-found \<^verbatim>\<open>ValueError\<close> exactly when the identifier is
  not a key of the problem map, and then leaves the whole state unchanged; for a stored
  identifier it returns a result that carries this identifier and the status
  \<^verbatim>\<open>"COMPLETED"\<close>.
\<close>

theorem solve_problem_not_found_iff:
  "(problems s pid = None \<longrightarrow>
      solve_problem uuid pid kw s =
        (Inl (ValueError (Msg (''Problem ID '' @ pid @ '' not found''))), s)) \<and>
   (problems s pid \<noteq> None \<longrightarrow>
      (\<exists>r s'. solve_problem uuid pid kw s = (Inr r, s') \<and>
         problem_id r = pid \<and> status r = ''COMPLETED''))"
  by (auto simp: solve_problem_def solve_problem_body_def py_float_hundred Let_def)

theorem solve_problem_not_found_iff_witness:
  "problems (DWaveServer None) ''p'' = None \<and>
   solve_problem ''r'' ''p'' Map.empty (DWaveServer None) =
     (Inl (ValueError (Msg ''Problem ID p not found'')), DWaveServer None) \<and>
   problems ((DWaveServer None)\<lparr>problems := [''p'' \<mapsto> Qubo ''p'' [] []]\<rparr>) ''p'' \<noteq> None \<and>
   (\<exists>r s'. solve_problem ''r'' ''p'' [''num_reads'' \<mapsto> PyInt 7]
              ((DWaveServer None)\<lparr>problems := [''p'' \<mapsto> Qubo ''p'' [] []]\<rparr>) = (Inr r, s') \<and>
      problem_id r = ''p'' \<and> status r = ''COMPLETED'')"
  using solve_problem_not_found_iff [of "DWaveServer None" "''p''" "''r''" Map.empty]
    solve_problem_not_found_iff [of "(DWaveServer None)\<lparr>problems := [''p'' \<mapsto> Qubo ''p'' [] []]\<rparr>"
      "''p''" "''r''" "[''num_reads'' \<mapsto> PyInt 7]"]
  by (simp add: DWaveServer_def)

text \<open>
  C5. On one Registry state and one stored identifier, two calls of \<^verbatim>\<open>solve_problem\<close>
  with any keyword arguments, so with any values of \<^verbatim>\<open>num_reads\<close> and
  \<^verbatim>\<open>annealing_time\<close>, both succeed, and their results agree in every field but
  \<^verbatim>\<open>result_id\<close>, which is the token drawn at each call.
\<close>

theorem solve_problem_ignores_reads_and_time:
  assumes "problems s pid = Some p"
  shows "\<exists>r1 r2 s1 s2.
           solve_problem u1 pid kw1 s = (Inr r1, s1) \<and>
           solve_problem u2 pid kw2 s = (Inr r2, s2) \<and>
           result_id r1 = u1 \<and> result_id r2 = u2 \<and>
           problem_id r1 = problem_id r2 \<and> energy r1 = energy r2 \<and>
           solution r1 = solution r2 \<and> qpu_access_time r1 = qpu_access_time r2 \<and>
           execution_time r1 = execution_time r2 \<and>
           total_annealing_time r1 = total_annealing_time r2 \<and> status r1 = status r2"
  using assms by (simp add: solve_problem_def solve_problem_body_def py_float_hundred Let_def)

theorem solve_problem_ignores_reads_and_time_witness:
  "problems ((DWaveServer None)\<lparr>problems := [''p'' \<mapsto> Qubo ''p'' [] []]\<rparr>) ''p'' =
     Some (Qubo ''p'' [] []) \<and>
   (\<exists>r1 r2 s1 s2.
      solve_problem ''a'' ''p'' [''num_reads'' \<mapsto> PyInt 1, ''annealing_time'' \<mapsto> PyInt 5]
        ((DWaveServer None)\<lparr>problems := [''p'' \<mapsto> Qubo ''p'' [] []]\<rparr>) = (Inr r1, s1) \<and>
      solve_problem ''b'' ''p'' [''num_reads'' \<mapsto> PyInt 10000]
        ((DWaveServer None)\<lparr>problems := [''p'' \<mapsto> Qubo ''p'' [] []]\<rparr>) = (Inr r2, s2) \<and>
      result_id r1 = ''a'' \<and> result_id r2 = ''b'' \<and>
      problem_id r1 = problem_id r2 \<and> energy r1 = energy r2 \<and>
      solution r1 = solution r2 \<and> qpu_access_time r1 = qpu_access_time r2 \<and>
      execution_time r1 = execution_time r2 \<and>
      total_annealing_time r1 = total_annealing_time r2 \<and> status r1 = status r2)"
proof -
  have h: "problems ((DWaveServer None)\<lparr>problems := [''p'' \<mapsto> Qubo ''p'' [] []]\<rparr>) ''p'' =
     Some (Qubo ''p'' [] [])"
    by simp
  show ?thesis
    using h solve_problem_ignores_reads_and_time [OF h, of "''a''"
        "[''num_reads'' \<mapsto> PyInt 1, ''annealing_time'' \<mapsto> PyInt 5]" "''b''"
        "[''num_reads'' \<mapsto> PyInt 10000]"]
    by blast
qed

subsection \<open>Simulator configuration\<close>

text \<open>
  C6. \<^verbatim>\<open>set_simulator_config\<close> raises \<^verbatim>\<open>ValueError\<close> exactly when \<^verbatim>\<open>simulator_type\<close> is
  neither \<^verbatim>\<open>"dwave"\<close> nor \<^verbatim>\<open>"neal"\<close>, and then changes nothing; otherwise it stores both
  values, returns them with \<^verbatim>\<open>updated = True\<close>, and \<^verbatim>\<open>get_simulator_status\<close> on the new
  state reports the stored values.
\<close>

theorem set_simulator_config_validates:
  "(sim_type \<notin> {''dwave'', ''neal''} \<longrightarrow>
      (\<exists>m. set_simulator_config use_sim sim_type s = (Inl (ValueError m), s))) \<and>
   (sim_type \<in> {''dwave'', ''neal''} \<longrightarrow>
      (\<exists>r s'. set_simulator_config use_sim sim_type s = (Inr r, s') \<and>
         updated r = True \<and> cu_use_simulator r = use_sim \<and> cu_simulator_type r = sim_type \<and>
         use_simulator (config s') = use_sim \<and> simulator_type (config s') = sim_type \<and>
         st_use_simulator (get_simulator_status s') = use_sim \<and>
         st_simulator_type (get_simulator_status s') = sim_type))"
  by (auto simp: set_simulator_config_def get_simulator_status_def Let_def)

theorem set_simulator_config_validates_witness:
  "''quantum'' \<notin> {''dwave'', ''neal''} \<and>
   (\<exists>m. set_simulator_config True ''quantum'' (DWaveServer None) =
      (Inl (ValueError m), DWaveServer None)) \<and>
   ''neal'' \<in> {''dwave'', ''neal''} \<and>
   (\<exists>r s'. set_simulator_config False ''neal'' (DWaveServer None) = (Inr r, s') \<and>
      updated r = True \<and> cu_use_simulator r = False \<and> cu_simulator_type r = ''neal'' \<and>
      use_simulator (config s') = False \<and> simulator_type (config s') = ''neal'' \<and>
      st_use_simulator (get_simulator_status s') = False \<and>
      st_simulator_type (get_simulator_status s') = ''neal'')"
  using set_simulator_config_validates [of "''quantum''" True "DWaveServer None"]
        set_simulator_config_validates [of "''neal''" False "DWaveServer None"]
  by simp

subsection \<open>Results refer to stored problems\<close>

lemma results_refer_apply: "results_refer s \<Longrightarrow> results_refer (apply_operation op s)"
proof (cases op)
  case (CreateQubo u Q d)
  assume "results_refer s"
  then show ?thesis
    using dom_problems_create_qubo [of s u Q d]
    unfolding results_refer_def CreateQubo
    by (simp add: results_create_qubo) blast
next
  case (CreateIsing u h J d)
  assume "results_refer s"
  then show ?thesis
    using dom_problems_create_ising [of s u h J d]
    unfolding results_refer_def CreateIsing
    by (simp add: results_create_ising) blast
next
  case (SolveProblem u pid kw)
  assume "results_refer s"
  then show ?thesis
    unfolding results_refer_def SolveProblem
    by (auto simp: problems_solve_problem dest!: results_solve_problem)
qed (simp_all add: results_refer_def problems_set_simulator_config)

lemma results_refer_run: "results_refer s \<Longrightarrow> results_refer (run ops s)"
  by (induction ops arbitrary: s) (simp_all add: results_refer_apply)

text \<open>
  C8. In the state reached from a freshly constructed server by any sequence of calls of
  the six operations, with any arguments and whether or not the calls raise, the
  \<^verbatim>\<open>problem_id\<close> of every stored result is a key of the problem map.
\<close>

theorem results_reference_stored_problems:
  assumes "results (run ops (DWaveServer cfg)) rid = Some r"
  shows "problem_id r \<in> dom (problems (run ops (DWaveServer cfg)))"
proof -
  have "results_refer (DWaveServer cfg)"
    by (simp add: results_refer_def DWaveServer_def)
  then have "results_refer (run ops (DWaveServer cfg))"
    by (rule results_refer_run)
  with assms show ?thesis
    by (simp add: results_refer_def)
qed

theorem results_reference_stored_problems_witness:
  "(\<exists>r. results (run [CreateQubo ''p'' [] [], SolveProblem ''r'' ''p'' Map.empty,
                       SolveProblem ''x'' ''q'' Map.empty]
                  (DWaveServer None)) ''r'' = Some r \<and>
        problem_id r = ''p'' \<and>
        problem_id r \<in> dom (problems
          (run [CreateQubo ''p'' [] [], SolveProblem ''r'' ''p'' Map.empty,
                SolveProblem ''x'' ''q'' Map.empty]
             (DWaveServer None))))"
proof -
  have "\<exists>r. results (run [CreateQubo ''p'' [] [], SolveProblem ''r'' ''p'' Map.empty,
                       SolveProblem ''x'' ''q'' Map.empty]
                  (DWaveServer None)) ''r'' = Some r \<and> problem_id r = ''p''"
    by (simp add: create_qubo_empty solve_problem_def solve_problem_body_def
        py_float_hundred Let_def)
  then obtain r where
    h: "results (run [CreateQubo ''p'' [] [], SolveProblem ''r'' ''p'' Map.empty,
                       SolveProblem ''x'' ''q'' Map.empty]
                  (DWaveServer None)) ''r'' = Some r" and p: "problem_id r = ''p''"
    by blast
  from results_reference_stored_problems [OF h] h p show ?thesis
    by blast
qed

subsection \<open>The number of variables of a QUBO\<close>

text \<open>
  C2 (as amended). For a coefficient map whose keys are native integer pairs or the texts
  \<^verbatim>\<open>"i,j"\<close> and \<^verbatim>\<open>"(i,j)"\<close> with indices of at most 4300 digits, and whose values are
  floats or integers that \<^verbatim>\<open>float()\<close> converts, \<^verbatim>\<open>create_qubo\<close> succeeds and returns as
  \<^verbatim>\<open>num_variables\<close> the number of distinct integers that occur, in either position, in
  the keys. The map of the specification's example has two variables.
\<close>

theorem create_qubo_num_variables:
  assumes "\<forall>e \<in> set es. valid_entry e"
  shows "fst (create_qubo uuid (map pair_entry es) d s) =
     Inr \<lparr>s_problem_id = uuid, s_type = ''qubo'', s_description = d,
          num_variables = card (\<Union>(f, i, j, v) \<in> set es. {i, j})\<rparr>"
proof -
  obtain fq where fq: "format_dict format_key (map pair_entry es) [] = Inr fq"
    and k: "fst ` set fq =
      (\<lambda>(i, j). KTuple [KInt i, KInt j]) ` ((\<lambda>(f, i, j, v). (i, j)) ` set es)"
    using format_dict_pair_entries [OF assms] by blast
  have "(\<Union>(i, j) \<in> (\<lambda>(f, i, j, v). (i, j)) ` set es. {i, j}) =
      (\<Union>(f, i, j, v) \<in> set es. {i, j})"
    by (simp add: case_prod_beta)
  then show ?thesis
    using count_variables_int_pairs [OF k]
    by (simp add: create_qubo_def fq Let_def)
qed

theorem create_qubo_num_variables_witness:
  "valid_entry (Plain, 0, 0, PyInt (- 1)) \<and> valid_entry (Plain, 1, 1, PyInt (- 1)) \<and>
   valid_entry (Plain, 0, 1, PyInt 2) \<and>
   fst (create_qubo ''u'' [(KStr ''0,0'', PyInt (- 1)), (KStr ''1,1'', PyInt (- 1)),
         (KStr ''0,1'', PyInt 2)] [] (DWaveServer None)) =
     Inr \<lparr>s_problem_id = ''u'', s_type = ''qubo'', s_description = [], num_variables = 2\<rparr>"
proof -
  have v: "valid_entry (Plain, 0, 0, PyInt (- 1))" "valid_entry (Plain, 1, 1, PyInt (- 1))"
    "valid_entry (Plain, 0, 1, PyInt 2)"
    by (simp_all add: readable_def one_within_limit is_coefficient_small)
  then have h: "\<forall>e \<in> set [(Plain, 0, 0, PyInt (- 1)), (Plain, 1, 1, PyInt (- 1)),
      (Plain, 0, 1, PyInt 2)]. valid_entry e"
    by simp
  have "(\<Union>(f, i, j, v) \<in> set [(Plain, 0, 0, PyInt (- 1)), (Plain, 1, 1, PyInt (- 1)),
      (Plain, 0, 1, PyInt 2)]. {i, j :: int}) = {0, 1}"
    by auto
  then have "fst (create_qubo ''u'' [(KStr ''0,0'', PyInt (- 1)), (KStr ''1,1'', PyInt (- 1)),
         (KStr ''0,1'', PyInt 2)] [] (DWaveServer None)) =
     Inr \<lparr>s_problem_id = ''u'', s_type = ''qubo'', s_description = [], num_variables = 2\<rparr>"
    using create_qubo_num_variables [OF h, of "''u''" "[]" "DWaveServer None"]
    by (simp add: py_str_small)
  with v show ?thesis
    by simp
qed

text \<open>
  C2 as stated fails for a value that \<^verbatim>\<open>float()\<close> cannot convert: with the native key
  \<^verbatim>\<open>(0, 1)\<close> and the integer \<open>2 * 10 ^ 308\<close> the call raises \<^verbatim>\<open>OverflowError\<close> inside the
  loop, returns no count and stores nothing.
\<close>

theorem create_qubo_overflow_counterexample:
  "create_qubo ''u'' [(KTuple [KInt 0, KInt 1], PyInt (2 * 10 ^ 308))] [] (DWaveServer None) =
     (Inl (OverflowError InterpreterMsg), DWaveServer None)"
  by (simp add: create_qubo_def format_key_native py_float_def)

subsection \<open>The three ways of writing a key\<close>

text \<open>
  C7 (as amended). For every pair of integers of at most 4300 digits and every value,
  \<^verbatim>\<open>create_qubo\<close> on a map with the single key written as the text \<^verbatim>\<open>"i,j"\<close> or
  \<^verbatim>\<open>"(i,j)"\<close> gives the same outcome and the same state as on the map with the native pair
  \<^verbatim>\<open>(i, j)\<close>; for a float value the stored coefficient map is \<^verbatim>\<open>{(i, j): x}\<close> and
  \<^verbatim>\<open>num_variables\<close> is the number of distinct integers among \<open>i\<close> and \<open>j\<close>, whatever the
  form of the key.
\<close>

theorem key_normalisation_round_trip:
  assumes "\<bar>i\<bar> < 10 ^ int_max_str_digits" and "\<bar>j\<bar> < 10 ^ int_max_str_digits"
  shows "create_qubo uuid [(pair_key f i j, v)] d s =
     create_qubo uuid [(KTuple [KInt i, KInt j], v)] d s \<and>
   create_qubo uuid [(pair_key f i j, PyFloat x)] d s =
     (Inr \<lparr>s_problem_id = uuid, s_type = ''qubo'', s_description = d,
           num_variables = card {i, j}\<rparr>,
      s\<lparr>problems := (problems s)(uuid \<mapsto> Qubo uuid [(KTuple [KInt i, KInt j], x)] d)\<rparr>)"
proof -
  have fk: "format_key (pair_key f i j) = Inr (KTuple [KInt i, KInt j])"
    using assms by (intro format_key_pair_key) (simp_all add: readable_def)
  have one: "format_dict format_key [(pair_key f i j, v)] [] =
      format_dict format_key [(KTuple [KInt i, KInt j], v)] []"
    by (simp add: fk format_key_native)
  have eq: "create_qubo uuid [(pair_key f i j, v)] d s =
      create_qubo uuid [(KTuple [KInt i, KInt j], v)] d s"
    by (simp only: create_qubo_def one)
  have "card {KInt i, KInt j} = card {i, j}"
    by (simp add: card_insert_if)
  then have cv: "count_variables [(KTuple [KInt i, KInt j], x)] = Inr (card {i, j})"
    by (simp add: count_variables_def unpack_pair_def)
  have "create_qubo uuid [(pair_key f i j, PyFloat x)] d s =
     (Inr \<lparr>s_problem_id = uuid, s_type = ''qubo'', s_description = d,
           num_variables = card {i, j}\<rparr>,
      s\<lparr>problems := (problems s)(uuid \<mapsto> Qubo uuid [(KTuple [KInt i, KInt j], x)] d)\<rparr>)"
    by (simp add: create_qubo_def fk py_float_def cv Let_def)
  with eq show ?thesis
    by simp
qed

theorem key_normalisation_round_trip_witness:
  "\<bar>0 :: int\<bar> < 10 ^ int_max_str_digits \<and> \<bar>1 :: int\<bar> < 10 ^ int_max_str_digits \<and>
   create_qubo ''u'' [(KStr ''(0,1)'', PyFloat 2)] [] (DWaveServer None) =
     create_qubo ''u'' [(KTuple [KInt 0, KInt 1], PyFloat 2)] [] (DWaveServer None) \<and>
   create_qubo ''u'' [(KStr ''0,1'', PyFloat 2)] [] (DWaveServer None) =
     create_qubo ''u'' [(KTuple [KInt 0, KInt 1], PyFloat 2)] [] (DWaveServer None) \<and>
   create_qubo ''u'' [(KStr ''(0,1)'', PyFloat 2)] [] (DWaveServer None) =
     (Inr \<lparr>s_problem_id = ''u'', s_type = ''qubo'', s_description = [], num_variables = 2\<rparr>,
      (DWaveServer None)\<lparr>problems :=
         (problems (DWaveServer None))(''u'' \<mapsto> Qubo ''u'' [(KTuple [KInt 0, KInt 1], 2)] [])\<rparr>)"
proof -
  have b: "\<bar>0 :: int\<bar> < 10 ^ int_max_str_digits" "\<bar>1 :: int\<bar> < 10 ^ int_max_str_digits"
    by (simp_all add: one_within_limit)
  have k: "pair_key Parenthesised 0 1 = KStr ''(0,1)''" "pair_key Plain 0 1 = KStr ''0,1''"
    by (simp_all add: py_str_small)
  have c: "card {0, 1 :: int} = 2"
    by simp
  show ?thesis
    using b key_normalisation_round_trip [OF b, of "''u''" Parenthesised "PyFloat 2" "[]"
        "DWaveServer None" 2]
      key_normalisation_round_trip [OF b, of "''u''" Plain "PyFloat 2" "[]" "DWaveServer None" 2]
    unfolding k c by blast
qed

text \<open>
  C7 as stated fails for an index of more than 4300 digits: the text of the pair
  \<open>(10 ^ 4300, 0)\<close> is rejected by \<^verbatim>\<open>int()\<close>, so the call raises \<^verbatim>\<open>ValueError\<close> and stores
  nothing, while the native pair is accepted.
\<close>

theorem key_normalisation_digit_limit_counterexample:
  "create_qubo ''u'' [(pair_key Plain (10 ^ int_max_str_digits) 0, PyFloat 2)] []
     (DWaveServer None) =
     (Inl (ValueError InterpreterMsg), DWaveServer None) \<and>
   fst (create_qubo ''u'' [(pair_key Native (10 ^ int_max_str_digits) 0, PyFloat 2)] []
     (DWaveServer None)) =
     Inr \<lparr>s_problem_id = ''u'', s_type = ''qubo'', s_description = [], num_variables = 2\<rparr>"
proof -
  have "py_int (py_str (10 ^ int_max_str_digits)) = Inl (ValueError InterpreterMsg)"
    by (rule py_int_too_long) simp
  then have "format_key (pair_key Plain (10 ^ int_max_str_digits) 0) =
      Inl (ValueError InterpreterMsg)"
    by (simp add: format_key_def pair_of_text_def strip_parens_plain [simplified]
        split_pair_text [simplified])
  then have 1: "create_qubo ''u'' [(pair_key Plain (10 ^ int_max_str_digits) 0, PyFloat 2)] []
     (DWaveServer None) = (Inl (ValueError InterpreterMsg), DWaveServer None)"
    by (simp add: create_qubo_def)
  have "card {KInt (10 ^ int_max_str_digits), KInt 0} = 2"
    by simp
  then have 2: "fst (create_qubo ''u''
      [(pair_key Native (10 ^ int_max_str_digits) 0, PyFloat 2)] [] (DWaveServer None)) =
     Inr \<lparr>s_problem_id = ''u'', s_type = ''qubo'', s_description = [], num_variables = 2\<rparr>"
    by (simp add: create_qubo_def format_key_native py_float_def count_variables_def
        unpack_pair_def Let_def)
  from 1 2 show ?thesis
    by simp
qed

subsection \<open>The number of variables of an Ising model\<close>

text \<open>
  C3 (as amended). For an \<^verbatim>\<open>h\<close> whose keys are integers or texts that \<^verbatim>\<open>int()\<close> accepts
  and whose values are floats or integers that \<^verbatim>\<open>float()\<close> converts, and a valid
  pair-keyed \<^verbatim>\<open>J\<close>, \<^verbatim>\<open>create_ising\<close> succeeds and \<^verbatim>\<open>num_variables\<close> is the number of
  distinct integers the keys of \<^verbatim>\<open>h\<close> stand for; it is the number of entries of \<^verbatim>\<open>h\<close>
  whenever no two keys stand for the same integer.
\<close>

theorem create_ising_num_variables:
  assumes "\<forall>(k, v) \<in> set h. h_key_value k \<noteq> None \<and> is_coefficient v"
    and "\<forall>e \<in> set es. valid_entry e"
  shows "\<exists>r s'. create_ising uuid h (map pair_entry es) d s = (Inr r, s') \<and>
           num_variables r = card (h_key_value ` fst ` set h) \<and>
           (distinct (map (h_key_value \<circ> fst) h) \<longrightarrow> num_variables r = length h)"
proof -
  have key: "h_key_value k \<noteq> None" if "k \<in> fst ` set h" for k
    using assms(1) that by force
  have ok: "\<forall>(k, v) \<in> set h. (\<exists>k'. format_h_key k = Inr k') \<and> is_coefficient v"
  proof (clarsimp)
    fix k v assume kv: "(k, v) \<in> set h"
    then have "h_key_value k \<noteq> None" "is_coefficient v"
      using assms(1) by auto
    then show "(\<exists>k'. format_h_key k = Inr k') \<and> is_coefficient v"
      using format_h_key_value by blast
  qed
  then obtain fh where fh: "format_dict format_h_key h [] = Inr fh"
    using format_dict_succeeds by blast
  obtain fJ where fJ: "format_dict format_key (map pair_entry es) [] = Inr fJ"
    using format_dict_pair_entries [OF assms(2)] by blast
  have "{k'. \<exists>k \<in> fst ` set h. format_h_key k = Inr k'} =
      (\<lambda>k. KInt (the (h_key_value k))) ` fst ` set h"
  proof (rule set_eqI, rule iffI)
    fix k' assume "k' \<in> {k'. \<exists>k \<in> fst ` set h. format_h_key k = Inr k'}"
    then obtain k where k: "k \<in> fst ` set h" "format_h_key k = Inr k'"
      by blast
    then obtain n where "h_key_value k = Some n"
      using key by blast
    then show "k' \<in> (\<lambda>k. KInt (the (h_key_value k))) ` fst ` set h"
      using k format_h_key_value [of k n] by force
  next
    fix k' assume "k' \<in> (\<lambda>k. KInt (the (h_key_value k))) ` fst ` set h"
    then obtain k where k: "k \<in> fst ` set h" "k' = KInt (the (h_key_value k))"
      by blast
    then obtain n where "h_key_value k = Some n"
      using key by blast
    then show "k' \<in> {k'. \<exists>k \<in> fst ` set h. format_h_key k = Inr k'}"
      using k format_h_key_value [of k n] by auto
  qed
  then have "length fh = card ((\<lambda>k. KInt (the (h_key_value k))) ` fst ` set h)"
    using format_dict_length [OF fh] by simp
  also have "(\<lambda>k. KInt (the (h_key_value k))) ` fst ` set h =
      (\<lambda>v. KInt (the v)) ` (h_key_value ` fst ` set h)"
    by (simp add: image_image)
  also have "card \<dots> = card (h_key_value ` fst ` set h)"
  proof (rule card_image, rule inj_onI)
    fix a b assume a: "a \<in> h_key_value ` fst ` set h" and b: "b \<in> h_key_value ` fst ` set h"
      and e: "KInt (the a) = KInt (the b)"
    from a key obtain m where "a = Some m" by force
    moreover from b key obtain n where "b = Some n" by force
    ultimately show "a = b" using e by simp
  qed
  finally have len: "length fh = card (h_key_value ` fst ` set h)" .
  have "distinct (map (h_key_value \<circ> fst) h) \<longrightarrow> card (h_key_value ` fst ` set h) = length h"
    using distinct_card [of "map (h_key_value \<circ> fst) h"] by (simp add: image_image)
  then show ?thesis
    using len by (simp add: create_ising_def fh fJ)
qed

theorem create_ising_num_variables_witness:
  "h_key_value (KStr ''0'') \<noteq> None \<and> is_coefficient (PyFloat 1) \<and>
   h_key_value (KStr ''1'') \<noteq> None \<and> is_coefficient (PyFloat (- 1)) \<and>
   valid_entry (Parenthesised, 0, 1, PyFloat (- 1)) \<and>
   distinct (map (h_key_value \<circ> fst) [(KStr ''0'', PyFloat 1), (KStr ''1'', PyFloat (- 1))]) \<and>
   (\<exists>r s'. create_ising ''u'' [(KStr ''0'', PyFloat 1), (KStr ''1'', PyFloat (- 1))]
              [(KStr ''(0,1)'', PyFloat (- 1))] [] (DWaveServer None) = (Inr r, s') \<and>
      num_variables r = 2)"
proof -
  have a: "h_key_value (KStr ''0'') \<noteq> None" "is_coefficient (PyFloat 1)"
    "h_key_value (KStr ''1'') \<noteq> None" "is_coefficient (PyFloat (- 1))"
    by (simp_all add: h_key_value_examples is_coefficient_def)
  then have h: "\<forall>(k, v) \<in> set [(KStr ''0'', PyFloat 1), (KStr ''1'', PyFloat (- 1))].
      h_key_value k \<noteq> None \<and> is_coefficient v"
    by simp
  have v: "valid_entry (Parenthesised, 0, 1, PyFloat (- 1))"
    by (simp add: readable_def one_within_limit is_coefficient_def)
  then have j: "\<forall>e \<in> set [(Parenthesised, 0, 1, PyFloat (- 1))]. valid_entry e"
    by simp
  have dd: "distinct (map (h_key_value \<circ> fst)
      [(KStr ''0'', PyFloat 1), (KStr ''1'', PyFloat (- 1))])"
    by (simp add: h_key_value_examples)
  have k: "map pair_entry [(Parenthesised, 0, 1, PyFloat (- 1))] =
      [(KStr ''(0,1)'', PyFloat (- 1))]"
    by (simp add: py_str_small)
  from create_ising_num_variables [OF h j, of "''u''" "[]" "DWaveServer None"] dd
  have "\<exists>r s'. create_ising ''u'' [(KStr ''0'', PyFloat 1), (KStr ''1'', PyFloat (- 1))]
              [(KStr ''(0,1)'', PyFloat (- 1))] [] (DWaveServer None) = (Inr r, s') \<and>
      num_variables r = 2"
    unfolding k by auto
  with a v dd show ?thesis
    by simp
qed

text \<open>
  C3 as stated fails when two keys of \<^verbatim>\<open>h\<close> stand for the same integer: the keys
  \<^verbatim>\<open>"1"\<close> and \<^verbatim>\<open>"01"\<close> are two entries and one variable.
\<close>

theorem create_ising_merged_keys_counterexample:
  "fst (create_ising ''u'' [(KStr ''1'', PyFloat 1), (KStr ''01'', PyFloat 2)] [] []
          (DWaveServer None)) =
     Inr \<lparr>s_problem_id = ''u'', s_type = ''ising'', s_description = [], num_variables = 1\<rparr> \<and>
   length [(KStr ''1'', PyFloat 1), (KStr ''01'', PyFloat 2)] = 2 \<and>
   h_key_value (KStr ''1'') = Some 1 \<and> h_key_value (KStr ''01'') = Some 1"
  by (simp add: create_ising_def format_h_key_def py_int_examples py_float_def h_key_value_def)

subsection \<open>A failure after the problem is stored\<close>

text \<open>
  C10 (as amended). If the loop over the items of \<^verbatim>\<open>Q\<close> completes (every textual key with
  a comma parses as two integers, every value converts to a float) and \<^verbatim>\<open>Q\<close> has a key
  that is stored as it is and cannot be unpacked into two components (an integer, a tuple
  whose length is not two, a text without comma whose length is not two), then
  \<^verbatim>\<open>create_qubo\<close> raises, and the state it leaves holds the new problem record under the
  generated identifier.
\<close>

theorem create_qubo_fails_after_store:
  assumes "format_dict format_key Q [] = Inr formatted_Q"
    and "(k, v) \<in> set Q" and "kept_as_is k" and "\<not> unpackable k"
  shows "\<exists>e. create_qubo uuid Q d s =
           (Inl e, s\<lparr>problems := (problems s)(uuid \<mapsto> Qubo uuid formatted_Q d)\<rparr>)"
proof -
  have "format_key k = Inr k"
    using assms(3) by (simp add: format_key_def kept_as_is_def split: pykey.splits)
  then have "k \<in> set (map fst formatted_Q)"
    using format_dict_member [OF assms(1,2)] by simp
  then obtain e where "unpack_all (map fst formatted_Q) = Inl e"
    using unpack_all_fails [OF _ assms(4)] by blast
  then have "count_variables formatted_Q = Inl e"
    by (simp add: count_variables_def)
  then show ?thesis
    by (simp add: create_qubo_def assms(1) Let_def)
qed

theorem create_qubo_fails_after_store_witness:
  "format_dict format_key [(KInt 5, PyFloat 1)] [] = Inr [(KInt 5, 1)] \<and>
   (KInt 5, PyFloat 1) \<in> set [(KInt 5, PyFloat 1)] \<and> kept_as_is (KInt 5) \<and>
   \<not> unpackable (KInt 5) \<and>
   (\<exists>e. create_qubo ''u'' [(KInt 5, PyFloat 1)] [] (DWaveServer None) =
      (Inl e, (DWaveServer None)\<lparr>problems :=
         (problems (DWaveServer None))(''u'' \<mapsto> Qubo ''u'' [(KInt 5, 1)] [])\<rparr>))"
proof -
  have a: "format_dict format_key [(KInt 5, PyFloat 1)] [] = Inr [(KInt 5, 1)]"
    by (simp add: format_key_def py_float_def)
  have b: "(KInt 5, PyFloat 1) \<in> set [(KInt 5, PyFloat 1)]"
    by simp
  have c: "kept_as_is (KInt 5)"
    by (simp add: kept_as_is_def)
  have d: "\<not> unpackable (KInt 5)"
    by (simp add: unpackable_def)
  from create_qubo_fails_after_store [OF a b c d, of "''u''" "[]" "DWaveServer None"] a b c d
  show ?thesis
    by blast
qed

text \<open>
  C10 as stated fails in two ways. A text of two characters without comma is neither a
  text with a comma nor a pair, yet it unpacks into its characters and the call succeeds.
  And when another key fails to parse, the call raises inside the loop, before anything is
  stored.
\<close>

theorem create_qubo_fails_after_store_counterexample:
  "fst (create_qubo ''u'' [(KStr ''ab'', PyFloat 1)] [] (DWaveServer None)) =
     Inr \<lparr>s_problem_id = ''u'', s_type = ''qubo'', s_description = [], num_variables = 2\<rparr> \<and>
   create_qubo ''u'' [(KInt 5, PyFloat 1), (KStr ''a,b'', PyFloat 2)] [] (DWaveServer None) =
     (Inl (ValueError InterpreterMsg), DWaveServer None)"
  by (simp add: create_qubo_def format_key_def py_float_def count_variables_def
      unpack_pair_def pair_of_text_def py_strip_def py_int_examples Let_def)

end
